theory Spec2Isabelle
  imports
    Complex_Main
    "HOL-Library.Multiset"
    "HOL-Library.Product_Lexorder"
    "HOL-Library.List_Lexorder"
    "HOL-Library.Char_ord"
begin

section \<open>Outage log of RW\_Outage\_app.py: calendar, records, validation, aggregation\<close>

text \<open>
  The development follows \<^verbatim>\<open>RW_Outage_app.py\<close>. A pandas DataFrame is a list of rows
  in index order, a row is a record of its columns, a \<^verbatim>\<open>datetime.date\<close> is a record of
  year, month and day, and a \<^verbatim>\<open>datetime.time\<close> is a record of hour and minute (the
  form widgets are created with \<^verbatim>\<open>step=60\<close>, so times have minute resolution).
  A cell of the \<^verbatim>\<open>Date\<close> column that \<^verbatim>\<open>pd.to_datetime(..., errors="coerce")\<close>
  turns into \<^verbatim>\<open>NaT\<close> is \<open>None\<close>. The columns \<^verbatim>\<open>Downtime (minutes)\<close> and
  \<^verbatim>\<open>Failure Type\<close> are populated in every row, as the two submit handlers write them.
  Python floats are modelled by exact reals: every quotient below is the mathematical one.
\<close>

subsection \<open>Dates and times of day\<close>

record date =
  year :: int
  month :: nat
  day :: nat

record time =
  hour :: nat
  minute :: nat

text \<open>Pandas' and CPython's leap-year test.\<close>

definition is_leap_year :: "int \<Rightarrow> bool" where
  "is_leap_year y = (y mod 4 = 0 \<and> (y mod 100 \<noteq> 0 \<or> y mod 400 = 0))"

text \<open>\<^verbatim>\<open>pd.Period("Y-MM").days_in_month\<close>; month numbers come from \<^verbatim>\<open>.dt.month\<close>.\<close>

definition days_in_month :: "int \<Rightarrow> nat \<Rightarrow> nat" where
  "days_in_month y m =
     (if m = 2 then (if is_leap_year y then 29 else 28)
      else if m = 4 \<or> m = 6 \<or> m = 9 \<or> m = 11 then 30
      else 31)"

definition valid_date :: "date \<Rightarrow> bool" where
  "valid_date d = (1 \<le> month d \<and> month d \<le> 12 \<and> 1 \<le> day d \<and> day d \<le> days_in_month (year d) (month d))"

definition valid_time :: "time \<Rightarrow> bool" where
  "valid_time t = (hour t < 24 \<and> minute t < 60)"

text \<open>
  \<^verbatim>\<open>date.toordinal()\<close>: the day number in the proleptic Gregorian calendar; the
  difference of two dates is the difference of their ordinals.
\<close>

definition days_before_year :: "int \<Rightarrow> int" where
  "days_before_year y = (y - 1) * 365 + (y - 1) div 4 - (y - 1) div 100 + (y - 1) div 400"

definition days_before_month :: "int \<Rightarrow> nat \<Rightarrow> nat" where
  "days_before_month y m = sum_list (map (days_in_month y) [1..<m])"

definition toordinal :: "date \<Rightarrow> int" where
  "toordinal d = days_before_year (year d) + int (days_before_month (year d) (month d)) + int (day d)"

definition timedelta_days :: "date \<Rightarrow> date \<Rightarrow> int" where
  "timedelta_days a b = toordinal a - toordinal b"

text \<open>Comparison of \<^verbatim>\<open>date\<close> and of \<^verbatim>\<open>time\<close> objects is lexicographic on their fields.\<close>

definition date_le :: "date \<Rightarrow> date \<Rightarrow> bool" where
  "date_le a b =
     (year a < year b \<or> (year a = year b \<and>
       (month a < month b \<or> (month a = month b \<and> day a \<le> day b))))"

definition time_lt :: "time \<Rightarrow> time \<Rightarrow> bool" where
  "time_lt a b = (hour a < hour b \<or> (hour a = hour b \<and> minute a < minute b))"

definition time_le :: "time \<Rightarrow> time \<Rightarrow> bool" where
  "time_le a b = (hour a < hour b \<or> (hour a = hour b \<and> minute a \<le> minute b))"

text \<open>\<^verbatim>\<open>strftime("%B")\<close> in the default locale.\<close>

definition month_name :: "nat \<Rightarrow> string" where
  "month_name m =
     (if m = 1 then ''January'' else if m = 2 then ''February''
      else if m = 3 then ''March'' else if m = 4 then ''April''
      else if m = 5 then ''May'' else if m = 6 then ''June''
      else if m = 7 then ''July'' else if m = 8 then ''August''
      else if m = 9 then ''September'' else if m = 10 then ''October''
      else if m = 11 then ''November'' else if m = 12 then ''December''
      else [])"

subsection \<open>Rows of the downtime log\<close>

text \<open>
  \<^verbatim>\<open>downtime_str\<close> is \<^verbatim>\<open>f"{hours}h {minutes}m"\<close> when \<^verbatim>\<open>hours > 0\<close> and
  \<^verbatim>\<open>f"{minutes}m"\<close> otherwise; the two shapes are kept, the decimal rendering is not.
\<close>

datatype hhmm = Hours_Minutes int int | Minutes int

record outage =
  Date :: "date option"
  Start_Time :: time
  End_Time :: time
  Downtime_minutes :: int
  Downtime_hhmm :: hhmm
  Failure_Type :: string
  Remarks :: string

subsection \<open>Validation functions\<close>

definition validate_time_input :: "time \<Rightarrow> time \<Rightarrow> date \<Rightarrow> bool \<times> string" where
  "validate_time_input start_time end_time d =
     (if time_le end_time start_time then (False, ''End time must be after start time'')
      else
        let start_minutes = hour start_time * 60 + minute start_time;
            end_minutes = hour end_time * 60 + minute end_time;
            broadcast_start = 4 * 60 + 30;
            broadcast_end = 22 * 60
        in if start_minutes < broadcast_start \<or> end_minutes > broadcast_end
           then (False, ''Times must be within broadcast hours (4:30 AM - 10:00 PM)'')
           else (True, []))"

text \<open>
  \<^verbatim>\<open>str.strip()\<close> removes leading and trailing whitespace; characters are code points
  below 256 here.
\<close>

definition isspace :: "char \<Rightarrow> bool" where
  "isspace c = ((of_char c :: nat) \<in> {9, 10, 11, 12, 13, 28, 29, 30, 31, 32, 133, 160})"

definition strip :: "string \<Rightarrow> string" where
  "strip s = rev (dropWhile isspace (rev (dropWhile isspace s)))"

text \<open>
  A form value that is missing is \<open>None\<close>; \<^verbatim>\<open>date\<close> and \<^verbatim>\<open>time\<close> objects are
  always truthy, the empty string is falsy.
\<close>

definition validate_required_fields ::
  "date option \<Rightarrow> time option \<Rightarrow> time option \<Rightarrow> string \<Rightarrow> bool \<times> string" where
  "validate_required_fields d start_time end_time failure_type =
     (if d = None then (False, ''Date is required'')
      else if start_time = None then (False, ''Start time is required'')
      else if end_time = None then (False, ''End time is required'')
      else if failure_type = [] \<or> strip failure_type = [] then (False, ''Failure type is required'')
      else (True, []))"

text \<open>The loop of \<^verbatim>\<open>check_duplicate_entry\<close> over the rows of the same date.\<close>

fun overlap_loop :: "outage list \<Rightarrow> time \<Rightarrow> time \<Rightarrow> bool" where
  "overlap_loop [] start_time end_time = False"
| "overlap_loop (row # rows) start_time end_time =
     (let existing_start = Start_Time row; existing_end = End_Time row
      in if time_lt start_time existing_end \<and> time_lt existing_start end_time then True
         else overlap_loop rows start_time end_time)"

definition check_duplicate_entry :: "outage list \<Rightarrow> date \<Rightarrow> time \<Rightarrow> time \<Rightarrow> bool" where
  "check_duplicate_entry df d start_time end_time =
     (if df = [] then False
      else
        let same_date_entries = filter (\<lambda>row. Date row = Some d) df
        in overlap_loop same_date_entries start_time end_time)"

subsection \<open>The submit handlers of the Log Outage and Edit Records pages\<close>

datatype submit_error = Validation_Error string | Duplicate_Entry | Index_Error

text \<open>\<^verbatim>\<open>int((end_dt - start_dt).total_seconds() / 60)\<close> for two times of the same date.\<close>

definition downtime_minutes_of :: "time \<Rightarrow> time \<Rightarrow> int" where
  "downtime_minutes_of start_time end_time =
     (int (hour end_time) * 60 + int (minute end_time)) - (int (hour start_time) * 60 + int (minute start_time))"

definition downtime_str_of :: "int \<Rightarrow> hhmm" where
  "downtime_str_of downtime_minutes =
     (let hours = downtime_minutes div 60; minutes = downtime_minutes mod 60
      in if hours > 0 then Hours_Minutes hours minutes else Minutes minutes)"

text \<open>
  The handler of \<^verbatim>\<open>log_form\<close>: the three checks in turn, then the new row is appended.
  The result is the DataFrame handed to \<^verbatim>\<open>save_data\<close>, or the error shown.
\<close>

definition log_submit ::
  "outage list \<Rightarrow> date option \<Rightarrow> time option \<Rightarrow> time option \<Rightarrow> string \<Rightarrow> string
     \<Rightarrow> submit_error + outage list" where
  "log_submit df d start_time end_time failure_type remarks =
     (case validate_required_fields d start_time end_time failure_type of
        (False, required_msg) \<Rightarrow> Inl (Validation_Error required_msg)
      | (True, _) \<Rightarrow>
          (case (d, start_time, end_time) of
             (Some dv, Some st, Some et) \<Rightarrow>
               (case validate_time_input st et dv of
                  (False, time_msg) \<Rightarrow> Inl (Validation_Error time_msg)
                | (True, _) \<Rightarrow>
                    if check_duplicate_entry df dv st et then Inl Duplicate_Entry
                    else
                      let downtime_minutes = downtime_minutes_of st et;
                          new_record = \<lparr>Date = Some dv, Start_Time = st, End_Time = et,
                                        Downtime_minutes = downtime_minutes,
                                        Downtime_hhmm = downtime_str_of downtime_minutes,
                                        Failure_Type = failure_type, Remarks = remarks\<rparr>
                      in Inr (df @ [new_record]))
           | _ \<Rightarrow> Inl (Validation_Error [])))"

text \<open>
  The handler of \<^verbatim>\<open>edit_form\<close> for the row at \<^verbatim>\<open>actual_index\<close>: the required
  fields and the time check, then the row is overwritten. \<^verbatim>\<open>.iloc\<close> raises
  \<^verbatim>\<open>IndexError\<close> out of range.
\<close>

definition edit_submit ::
  "outage list \<Rightarrow> nat \<Rightarrow> date option \<Rightarrow> time option \<Rightarrow> time option \<Rightarrow> string \<Rightarrow> string
     \<Rightarrow> submit_error + outage list" where
  "edit_submit df actual_index d start_time end_time failure_type remarks =
     (if actual_index \<ge> length df then Inl Index_Error
      else
        case validate_required_fields d start_time end_time failure_type of
          (False, required_msg) \<Rightarrow> Inl (Validation_Error required_msg)
        | (True, _) \<Rightarrow>
            (case (d, start_time, end_time) of
               (Some dv, Some st, Some et) \<Rightarrow>
                 (case validate_time_input st et dv of
                    (False, time_msg) \<Rightarrow> Inl (Validation_Error time_msg)
                  | (True, _) \<Rightarrow>
                      let downtime_minutes = downtime_minutes_of st et
                      in Inr (df[actual_index :=
                                \<lparr>Date = Some dv, Start_Time = st, End_Time = et,
                                 Downtime_minutes = downtime_minutes,
                                 Downtime_hhmm = downtime_str_of downtime_minutes,
                                 Failure_Type = failure_type, Remarks = remarks\<rparr>]))
             | _ \<Rightarrow> Inl (Validation_Error [])))"

subsection \<open>Column aggregates of a group\<close>

definition BROADCAST_HOURS_PER_DAY :: real where
  "BROADCAST_HOURS_PER_DAY = 35 / 2"

definition column_sum :: "int list \<Rightarrow> int" where
  "column_sum xs = sum_list xs"

definition column_mean :: "int list \<Rightarrow> real" where
  "column_mean xs = real_of_int (sum_list xs) / real (length xs)"

text \<open>Groups are never empty, so the value on the empty column is never read.\<close>

fun column_max :: "int list \<Rightarrow> int" where
  "column_max [] = 0"
| "column_max (x # xs) = fold max xs x"

fun column_min :: "int list \<Rightarrow> int" where
  "column_min [] = 0"
| "column_min (x # xs) = fold min xs x"

text \<open>
  \<^verbatim>\<open>groupby\<close> (with its default \<^verbatim>\<open>sort=True\<close>) yields one group for each distinct
  key, in ascending key order; the rows of a group keep the order of the frame.
\<close>

definition groupby_keys :: "('a \<Rightarrow> 'k::linorder) \<Rightarrow> 'a list \<Rightarrow> 'k list" where
  "groupby_keys key rows = sort (remdups (map key rows))"

definition get_group :: "('a \<Rightarrow> 'k) \<Rightarrow> 'a list \<Rightarrow> 'k \<Rightarrow> 'a list" where
  "get_group key rows k = filter (\<lambda>row. key row = k) rows"

subsection \<open>build\_comprehensive\_summary\<close>

text \<open>A row of \<^verbatim>\<open>df_copy\<close> after \<^verbatim>\<open>dropna\<close>: the parsed date and the row.\<close>

type_synonym dated_row = "date \<times> outage"

definition dropna_Date :: "outage list \<Rightarrow> dated_row list" where
  "dropna_Date df = List.map_filter (\<lambda>row. map_option (\<lambda>d. (d, row)) (Date row)) df"

definition col_Year :: "dated_row \<Rightarrow> int" where
  "col_Year r = year (fst r)"

definition col_Month_Num :: "dated_row \<Rightarrow> nat" where
  "col_Month_Num r = month (fst r)"

definition col_Month :: "dated_row \<Rightarrow> string" where
  "col_Month r = month_name (month (fst r))"

definition col_Downtime :: "dated_row \<Rightarrow> int" where
  "col_Downtime r = Downtime_minutes (snd r)"

record summary_row =
  Year :: int
  Total_Downtime_Minutes :: int
  Failure_Count :: nat
  Avg_Downtime_Per_Failure :: real
  Total_Broadcast_Minutes :: real
  Availability_pct :: real

record monthly_row = summary_row +
  Month :: string
  Days_in_Month :: nat

record yearly_row = summary_row +
  Max_Downtime :: int
  Min_Downtime :: int
  Days_in_Year :: nat
  Max_Downtime_hours :: real
  Min_Downtime_hours :: real

record ytd_summary =
  current_year :: int
  days_elapsed :: int
  total_broadcast_minutes :: real
  total_downtime_minutes :: int
  ytd_availability_pct :: real
  failure_count :: nat
  avg_downtime_per_failure :: real

text \<open>
  The returned dict. \<open>ytd = None\<close>: the dict has no \<^verbatim>\<open>'ytd'\<close> key;
  \<open>ytd = Some None\<close>: the key holds the empty dict \<^verbatim>\<open>{}\<close>.
\<close>

record summary_data =
  monthly :: "monthly_row list"
  yearly :: "yearly_row list"
  ytd :: "ytd_summary option option"

text \<open>
  The monthly frame before \<^verbatim>\<open>sort_values\<close>: one row for each group of
  \<^verbatim>\<open>groupby(["Year", "Month", "Month_Num"])\<close>, with the derived columns; the column
  \<^verbatim>\<open>Month_Num\<close>, dropped at the end, is the first component. The groups come in the
  order of their keys, so the months of a year come in the alphabetical order of their
  names; \<^verbatim>\<open>sort_values(["Year", "Month_Num"])\<close> then sorts the rows. Its default
  algorithm is not stable, which is immaterial here: no two rows share a key.
\<close>

definition monthly_group_row :: "dated_row list \<Rightarrow> int \<times> string \<times> nat \<Rightarrow> nat \<times> monthly_row" where
  "monthly_group_row df_copy k =
     (case k of (y, mname, mnum) \<Rightarrow>
        let g = get_group (\<lambda>r. (col_Year r, col_Month r, col_Month_Num r)) df_copy k;
            total = column_sum (map col_Downtime g);
            dim = days_in_month y mnum;
            tbm = real dim * BROADCAST_HOURS_PER_DAY * 60
        in (mnum,
            \<lparr>Year = y,
             Total_Downtime_Minutes = total,
             Failure_Count = length (map (\<lambda>r. Failure_Type (snd r)) g),
             Avg_Downtime_Per_Failure = column_mean (map col_Downtime g),
             Total_Broadcast_Minutes = tbm,
             Availability_pct = ((tbm - real_of_int total) / tbm) * 100,
             Month = mname,
             Days_in_Month = dim\<rparr>))"

definition monthly_summary :: "dated_row list \<Rightarrow> monthly_row list" where
  "monthly_summary df_copy =
     (let grouped = map (monthly_group_row df_copy)
                      (groupby_keys (\<lambda>r. (col_Year r, col_Month r, col_Month_Num r)) df_copy)
      in map snd (sort_key (\<lambda>p. (Year (snd p), fst p)) grouped))"

definition yearly_group_row :: "dated_row list \<Rightarrow> int \<Rightarrow> yearly_row" where
  "yearly_group_row df_copy y =
     (let g = get_group col_Year df_copy y;
          total = column_sum (map col_Downtime g);
          mx = column_max (map col_Downtime g);
          mn = column_min (map col_Downtime g);
          diy = (if is_leap_year y then 366 else 365);
          tbm = real diy * BROADCAST_HOURS_PER_DAY * 60
      in \<lparr>Year = y,
          Total_Downtime_Minutes = total,
          Failure_Count = length (map (\<lambda>r. Failure_Type (snd r)) g),
          Avg_Downtime_Per_Failure = column_mean (map col_Downtime g),
          Total_Broadcast_Minutes = tbm,
          Availability_pct = ((tbm - real_of_int total) / tbm) * 100,
          Max_Downtime = mx,
          Min_Downtime = mn,
          Days_in_Year = diy,
          Max_Downtime_hours = real_of_int mx / 60,
          Min_Downtime_hours = real_of_int mn / 60\<rparr>)"

definition yearly_summary :: "dated_row list \<Rightarrow> yearly_row list" where
  "yearly_summary df_copy = map (yearly_group_row df_copy) (groupby_keys col_Year df_copy)"

text \<open>The year-to-date block; \<open>current_date\<close> is \<^verbatim>\<open>datetime.now().date()\<close>.\<close>

definition ytd_outages_of :: "date \<Rightarrow> dated_row list \<Rightarrow> dated_row list" where
  "ytd_outages_of current_date df_copy =
     filter (\<lambda>r. col_Year r = year current_date \<and> date_le (fst r) current_date) df_copy"

definition ytd_block :: "date \<Rightarrow> dated_row list \<Rightarrow> ytd_summary option" where
  "ytd_block current_date df_copy =
     (let cy = year current_date;
          ytd_outages = ytd_outages_of current_date df_copy
      in if ytd_outages \<noteq> [] then
           let jan_1 = \<lparr>year = cy, month = 1, day = 1\<rparr>;
               de = timedelta_days current_date jan_1 + 1;
               total_ytd_broadcast_minutes = real_of_int de * BROADCAST_HOURS_PER_DAY * 60;
               total_ytd_downtime_minutes = column_sum (map col_Downtime ytd_outages);
               ytd_availability =
                 ((total_ytd_broadcast_minutes - real_of_int total_ytd_downtime_minutes)
                    / total_ytd_broadcast_minutes) * 100
           in Some \<lparr>current_year = cy,
                    days_elapsed = de,
                    total_broadcast_minutes = total_ytd_broadcast_minutes,
                    total_downtime_minutes = total_ytd_downtime_minutes,
                    ytd_availability_pct = ytd_availability,
                    failure_count = length ytd_outages,
                    avg_downtime_per_failure =
                      (if length ytd_outages > 0 then column_mean (map col_Downtime ytd_outages) else 0)\<rparr>
         else None)"

definition build_comprehensive_summary :: "date \<Rightarrow> outage list \<Rightarrow> summary_data" where
  "build_comprehensive_summary current_date df =
     (if df = [] then \<lparr>monthly = [], yearly = [], ytd = None\<rparr>
      else
        let df_copy = dropna_Date df
        in if df_copy = [] then \<lparr>monthly = [], yearly = [], ytd = None\<rparr>
           else \<lparr>monthly = monthly_summary df_copy,
                 yearly = yearly_summary df_copy,
                 ytd = Some (ytd_block current_date df_copy)\<rparr>)"

subsection \<open>The projection block of the View Summary page\<close>

record projection =
  projected_remaining_downtime :: real
  projected_total_downtime :: real
  projected_availability :: real

definition full_year_projection :: "ytd_summary \<Rightarrow> projection option" where
  "full_year_projection ytd_summary =
     (if days_elapsed ytd_summary < 365 then
        let days_remaining = 365 - days_elapsed ytd_summary;
            prd = (real_of_int (total_downtime_minutes ytd_summary) / real_of_int (days_elapsed ytd_summary))
                    * real_of_int days_remaining;
            ptd = real_of_int (total_downtime_minutes ytd_summary) + prd;
            pa = ((365 * BROADCAST_HOURS_PER_DAY * 60 - ptd) / (365 * BROADCAST_HOURS_PER_DAY * 60)) * 100
        in Some \<lparr>projected_remaining_downtime = prd,
                 projected_total_downtime = ptd,
                 projected_availability = pa\<rparr>
      else None)"

subsection \<open>The system status block of the sidebar\<close>

text \<open>
  The callers read the year-to-date entry with \<^verbatim>\<open>summary_data['ytd']\<close>, which raises
  \<^verbatim>\<open>KeyError\<close> when the key is missing, and test its truth value: the empty dict is
  falsy. Every call site tests \<^verbatim>\<open>df.empty\<close> first; the sidebar is the first of them.
\<close>

datatype py_error = KeyError

definition getitem_ytd :: "summary_data \<Rightarrow> py_error + ytd_summary option" where
  "getitem_ytd summary = (case ytd summary of None \<Rightarrow> Inl KeyError | Some v \<Rightarrow> Inr v)"

datatype status = Excellent | Good | Needs_Attention | No_YTD_data | No_data

definition system_status :: "date \<Rightarrow> outage list \<Rightarrow> py_error + status" where
  "system_status current_date df =
     (if df \<noteq> [] then
        case getitem_ytd (build_comprehensive_summary current_date df) of
          Inl e \<Rightarrow> Inl e
        | Inr None \<Rightarrow> Inr No_YTD_data
        | Inr (Some ytd_summary) \<Rightarrow>
            let availability = ytd_availability_pct ytd_summary
            in Inr (if availability \<ge> 99.5 then Excellent
                    else if availability \<ge> 99.0 then Good
                    else Needs_Attention)
      else Inr No_data)"

subsection \<open>The summaries as the specification words them\<close>

text \<open>
  The specification speaks of the records themselves: the records of a month, of a year,
  and of the current year up to the current date; a record whose date did not parse is in
  none of them. Budgets are a number of days times 1050 minutes.
\<close>

definition parsed_dates :: "outage list \<Rightarrow> date list" where
  "parsed_dates df = List.map_filter Date df"

definition rows_in_month :: "outage list \<Rightarrow> int \<Rightarrow> nat \<Rightarrow> outage list" where
  "rows_in_month df y m =
     filter (\<lambda>row. case Date row of None \<Rightarrow> False | Some d \<Rightarrow> year d = y \<and> month d = m) df"

definition rows_in_year :: "outage list \<Rightarrow> int \<Rightarrow> outage list" where
  "rows_in_year df y =
     filter (\<lambda>row. case Date row of None \<Rightarrow> False | Some d \<Rightarrow> year d = y) df"

definition ytd_selection :: "date \<Rightarrow> outage list \<Rightarrow> outage list" where
  "ytd_selection T df =
     filter (\<lambda>row. case Date row of None \<Rightarrow> False | Some d \<Rightarrow> year d = year T \<and> date_le d T) df"

definition month_keys :: "outage list \<Rightarrow> (int \<times> nat) set" where
  "month_keys df = set (map (\<lambda>d. (year d, month d)) (parsed_dates df))"

definition year_keys :: "outage list \<Rightarrow> int set" where
  "year_keys df = set (map year (parsed_dates df))"

definition total_downtime :: "outage list \<Rightarrow> int" where
  "total_downtime g = sum_list (map Downtime_minutes g)"

definition availability :: "real \<Rightarrow> int \<Rightarrow> real" where
  "availability budget downtime = 100 * (budget - real_of_int downtime) / budget"

definition gregorian_leap :: "int \<Rightarrow> bool" where
  "gregorian_leap y = (4 dvd y \<and> (\<not> 100 dvd y \<or> 400 dvd y))"

text \<open>
  The row that the code computes for a month, in closed form over the records of the
  month; its number of days is the code's \<open>days_in_month\<close>.
\<close>

definition closed_monthly_row :: "outage list \<Rightarrow> int \<times> nat \<Rightarrow> monthly_row" where
  "closed_monthly_row df k =
     (let y = fst k; m = snd k; g = rows_in_month df y m;
          budget = real (days_in_month y m) * 1050
      in \<lparr>Year = y,
          Total_Downtime_Minutes = total_downtime g,
          Failure_Count = length g,
          Avg_Downtime_Per_Failure = real_of_int (total_downtime g) / real (length g),
          Total_Broadcast_Minutes = budget,
          Availability_pct = availability budget (total_downtime g),
          Month = month_name m,
          Days_in_Month = days_in_month y m\<rparr>)"




definition spec_yearly_row :: "outage list \<Rightarrow> int \<Rightarrow> yearly_row" where
  "spec_yearly_row df y =
     (let g = rows_in_year df y;
          diy = (if gregorian_leap y then 366 else 365);
          budget = real diy * 1050
      in \<lparr>Year = y,
          Total_Downtime_Minutes = total_downtime g,
          Failure_Count = length g,
          Avg_Downtime_Per_Failure = real_of_int (total_downtime g) / real (length g),
          Total_Broadcast_Minutes = budget,
          Availability_pct = availability budget (total_downtime g),
          Max_Downtime = Max (set (map Downtime_minutes g)),
          Min_Downtime = Min (set (map Downtime_minutes g)),
          Days_in_Year = diy,
          Max_Downtime_hours = real_of_int (Max (set (map Downtime_minutes g))) / 60,
          Min_Downtime_hours = real_of_int (Min (set (map Downtime_minutes g))) / 60\<rparr>)"

definition spec_days_elapsed :: "date \<Rightarrow> int" where
  "spec_days_elapsed T = timedelta_days T \<lparr>year = year T, month = 1, day = 1\<rparr> + 1"

definition spec_ytd :: "date \<Rightarrow> outage list \<Rightarrow> ytd_summary option" where
  "spec_ytd T df =
     (let sel = ytd_selection T df;
          budget = real_of_int (spec_days_elapsed T) * 1050
      in if sel = [] then None
         else Some \<lparr>current_year = year T,
                    days_elapsed = spec_days_elapsed T,
                    total_broadcast_minutes = budget,
                    total_downtime_minutes = total_downtime sel,
                    ytd_availability_pct = availability budget (total_downtime sel),
                    failure_count = length sel,
                    avg_downtime_per_failure = real_of_int (total_downtime sel) / real (length sel)\<rparr>)"

definition spec_projection :: "ytd_summary \<Rightarrow> projection" where
  "spec_projection y =
     (let remaining = (real_of_int (total_downtime_minutes y) / real_of_int (days_elapsed y))
                        * real_of_int (365 - days_elapsed y);
          total = real_of_int (total_downtime_minutes y) + remaining
      in \<lparr>projected_remaining_downtime = remaining,
          projected_total_downtime = total,
          projected_availability = 100 * (365 * 1050 - total) / (365 * 1050)\<rparr>)"

subsection \<open>Sample data\<close>

definition clock :: "nat \<Rightarrow> nat \<Rightarrow> time" where
  "clock h m = \<lparr>hour = h, minute = m\<rparr>"

definition ymd :: "int \<Rightarrow> nat \<Rightarrow> nat \<Rightarrow> date" where
  "ymd y m d = \<lparr>year = y, month = m, day = d\<rparr>"

definition sample_row :: "date option \<Rightarrow> time \<Rightarrow> time \<Rightarrow> outage" where
  "sample_row d s e =
     \<lparr>Date = d, Start_Time = s, End_Time = e,
      Downtime_minutes = downtime_minutes_of s e,
      Downtime_hhmm = downtime_str_of (downtime_minutes_of s e),
      Failure_Type = ''Power'', Remarks = []\<rparr>"

definition sample_log :: "outage list" where
  "sample_log =
     [sample_row (Some (ymd 2024 2 15)) (clock 9 0) (clock 10 0),
      sample_row None (clock 5 0) (clock 5 20),
      sample_row (Some (ymd 2023 12 3)) (clock 6 0) (clock 6 45),
      sample_row (Some (ymd 2024 1 3)) (clock 11 0) (clock 11 30),
      sample_row (Some (ymd 2024 2 15)) (clock 20 0) (clock 21 30),
      sample_row (Some (ymd 2024 8 1)) (clock 7 0) (clock 7 10)]"


section \<open>The record validator\<close>

subsection \<open>Time validation and overlap\<close>

lemma time_lt_not_le: "time_lt a b \<longleftrightarrow> \<not> time_le b a"
  unfolding time_lt_def time_le_def by auto

text \<open>
  Claim C6. For times of day \<open>start_time\<close> and \<open>end_time\<close>, \<open>validate_time_input\<close>
  accepts exactly when \<open>end_time > start_time\<close>, \<open>start_time \<ge> 04:30\<close> and
  \<open>end_time \<le> 22:00\<close>. The chronology check comes first: a pair with
  \<open>end_time \<le> start_time\<close> is rejected with the end-before-start message wherever it lies
  with respect to the broadcast window; every pair that starts before 04:30 or ends after
  22:00 is rejected, and with the broadcast-hours message when it passed the chronology
  check.
\<close>

theorem validate_time_input_decision:
  assumes "valid_time start_time" and "valid_time end_time"
  shows "(fst (validate_time_input start_time end_time d) \<longleftrightarrow>
            time_lt start_time end_time \<and> time_le (clock 4 30) start_time \<and> time_le end_time (clock 22 0))
       \<and> (time_le end_time start_time \<longrightarrow>
            validate_time_input start_time end_time d = (False, ''End time must be after start time''))
       \<and> (time_lt start_time (clock 4 30) \<or> time_lt (clock 22 0) end_time \<longrightarrow>
            \<not> fst (validate_time_input start_time end_time d))
       \<and> (time_lt start_time end_time \<and> (time_lt start_time (clock 4 30) \<or> time_lt (clock 22 0) end_time) \<longrightarrow>
            validate_time_input start_time end_time d =
              (False, ''Times must be within broadcast hours (4:30 AM - 10:00 PM)''))"
proof -
  have ms: "minute start_time < 60" and me: "minute end_time < 60"
    using assms by (simp_all add: valid_time_def)
  have w1: "time_le (clock 4 30) start_time \<longleftrightarrow> \<not> hour start_time * 60 + minute start_time < 4 * 60 + 30"
    using ms unfolding time_le_def clock_def by simp arith
  have w2: "time_le end_time (clock 22 0) \<longleftrightarrow> \<not> hour end_time * 60 + minute end_time > 22 * 60"
    using me unfolding time_le_def clock_def by simp arith
  have w3: "time_lt start_time (clock 4 30) \<longleftrightarrow> \<not> time_le (clock 4 30) start_time"
    by (rule time_lt_not_le)
  have w4: "time_lt (clock 22 0) end_time \<longleftrightarrow> \<not> time_le end_time (clock 22 0)"
    by (rule time_lt_not_le)
  show ?thesis
    unfolding w3 w4 unfolding w1 w2
    by (simp add: validate_time_input_def Let_def time_lt_not_le)
qed

theorem validate_time_input_decision_witness:
  "valid_time (clock 9 30) \<and> valid_time (clock 9 45)
   \<and> fst (validate_time_input (clock 9 30) (clock 9 45) (ymd 2024 2 15))
   \<and> validate_time_input (clock 10 0) (clock 9 0) (ymd 2024 2 15) = (False, ''End time must be after start time'')
   \<and> validate_time_input (clock 4 0) (clock 5 0) (ymd 2024 2 15) = (False, ''Times must be within broadcast hours (4:30 AM - 10:00 PM)'')
   \<and> validate_time_input (clock 21 0) (clock 22 30) (ymd 2024 2 15) = (False, ''Times must be within broadcast hours (4:30 AM - 10:00 PM)'')"
proof -
  have v: "valid_time (clock 9 30)" "valid_time (clock 9 45)" "valid_time (clock 10 0)"
    "valid_time (clock 9 0)" "valid_time (clock 4 0)" "valid_time (clock 5 0)"
    "valid_time (clock 21 0)" "valid_time (clock 22 30)"
    by (simp_all add: valid_time_def clock_def)
  have a: "time_lt (clock 9 30) (clock 9 45) \<and> time_le (clock 4 30) (clock 9 30) \<and> time_le (clock 9 45) (clock 22 0)"
    by (simp add: time_lt_def time_le_def clock_def)
  have b: "time_le (clock 9 0) (clock 10 0)"
    by (simp add: time_le_def clock_def)
  have c: "time_lt (clock 4 0) (clock 5 0) \<and> (time_lt (clock 4 0) (clock 4 30) \<or> time_lt (clock 22 0) (clock 5 0))"
    by (simp add: time_lt_def clock_def)
  have e: "time_lt (clock 21 0) (clock 22 30) \<and> (time_lt (clock 21 0) (clock 4 30) \<or> time_lt (clock 22 0) (clock 22 30))"
    by (simp add: time_lt_def clock_def)
  show ?thesis
    using v a b c e
      validate_time_input_decision [OF v(1) v(2), of "ymd 2024 2 15"]
      validate_time_input_decision [OF v(3) v(4), of "ymd 2024 2 15"]
      validate_time_input_decision [OF v(5) v(6), of "ymd 2024 2 15"]
      validate_time_input_decision [OF v(7) v(8), of "ymd 2024 2 15"]
    by blast
qed

lemma overlap_loop_iff:
  "overlap_loop rows s e \<longleftrightarrow> (\<exists>row\<in>set rows. time_lt s (End_Time row) \<and> time_lt (Start_Time row) e)"
  by (induction rows) (auto simp: Let_def)

lemma time_lt_irrefl: "\<not> time_lt t t"
  by (simp add: time_lt_def)

text \<open>
  Claim C5. \<open>check_duplicate_entry\<close> reports an overlap exactly when some logged row of
  the same date satisfies \<open>new.start < other.end\<close> and \<open>new.end > other.start\<close>. A new
  interval 10:00 to 10:30 that touches a logged 09:00 to 10:00 of the same date is not an
  overlap, and rows of other dates never conflict.
\<close>

theorem check_duplicate_entry_iff:
  "(check_duplicate_entry df d start_time end_time \<longleftrightarrow>
      (\<exists>other\<in>set df. Date other = Some d
          \<and> time_lt start_time (End_Time other) \<and> time_lt (Start_Time other) end_time))
   \<and> (\<not> check_duplicate_entry [sample_row (Some d) (clock 9 0) (clock 10 0)] d (clock 10 0) (clock 10 30))
   \<and> ((\<forall>other\<in>set df. Date other \<noteq> Some d) \<longrightarrow> \<not> check_duplicate_entry df d start_time end_time)"
proof -
  have main: "check_duplicate_entry df d s e \<longleftrightarrow>
      (\<exists>other\<in>set df. Date other = Some d \<and> time_lt s (End_Time other) \<and> time_lt (Start_Time other) e)"
    for df s e
    by (cases df) (auto simp: check_duplicate_entry_def overlap_loop_iff Let_def)
  have touching: "\<not> check_duplicate_entry [sample_row (Some d) (clock 9 0) (clock 10 0)] d (clock 10 0) (clock 10 30)"
    unfolding main by (simp add: sample_row_def time_lt_irrefl)
  show ?thesis
    using main [of df start_time end_time] touching by blast
qed

theorem check_duplicate_entry_iff_witness:
  "check_duplicate_entry [sample_row (Some (ymd 2024 2 15)) (clock 9 0) (clock 10 0)]
      (ymd 2024 2 15) (clock 9 30) (clock 9 45)
   \<and> \<not> check_duplicate_entry [sample_row (Some (ymd 2024 2 15)) (clock 9 0) (clock 10 0)]
      (ymd 2024 2 15) (clock 10 0) (clock 10 30)
   \<and> \<not> check_duplicate_entry [sample_row (Some (ymd 2024 2 15)) (clock 9 0) (clock 10 0)]
      (ymd 2024 2 16) (clock 9 30) (clock 9 45)"
proof -
  let ?df = "[sample_row (Some (ymd 2024 2 15)) (clock 9 0) (clock 10 0)]"
  have a: "\<exists>other\<in>set ?df. Date other = Some (ymd 2024 2 15)
          \<and> time_lt (clock 9 30) (End_Time other) \<and> time_lt (Start_Time other) (clock 9 45)"
    by (simp add: sample_row_def time_lt_def clock_def)
  have b: "\<forall>other\<in>set ?df. Date other \<noteq> Some (ymd 2024 2 16)"
    by (simp add: sample_row_def ymd_def)
  show ?thesis
    using a b
      check_duplicate_entry_iff [of ?df "ymd 2024 2 15" "clock 9 30" "clock 9 45"]
      check_duplicate_entry_iff [of ?df "ymd 2024 2 16" "clock 9 30" "clock 9 45"]
    by blast
qed

subsection \<open>The edit path\<close>

lemma edit_submit_never_duplicate:
  "edit_submit df i d s e f r \<noteq> Inl Duplicate_Entry"
  by (auto simp: edit_submit_def Let_def split: prod.splits option.splits bool.splits)

text \<open>
  Claim C7. The edit path is to re-run the validation of record creation, the overlap
  check included, against the rows of the same date other than the edited one. The
  handler of the edit form calls \<open>validate_required_fields\<close> and \<open>validate_time_input\<close>
  only: with 09:00 to 10:00 and 11:00 to 12:00 logged on one date, editing the second row to
  09:30 to 09:45 is accepted and written, although \<open>check_duplicate_entry\<close> reports the
  overlap with the first row and the creation path rejects the same interval.
\<close>

theorem edit_submit_skips_overlap_check:
  "edit_submit
      [sample_row (Some (ymd 2024 2 15)) (clock 9 0) (clock 10 0),
       sample_row (Some (ymd 2024 2 15)) (clock 11 0) (clock 12 0)]
      1 (Some (ymd 2024 2 15)) (Some (clock 9 30)) (Some (clock 9 45)) ''Power'' []
    = Inr [sample_row (Some (ymd 2024 2 15)) (clock 9 0) (clock 10 0),
           sample_row (Some (ymd 2024 2 15)) (clock 9 30) (clock 9 45)]
   \<and> check_duplicate_entry [sample_row (Some (ymd 2024 2 15)) (clock 9 0) (clock 10 0)]
        (ymd 2024 2 15) (clock 9 30) (clock 9 45)
   \<and> log_submit [sample_row (Some (ymd 2024 2 15)) (clock 9 0) (clock 10 0)]
        (Some (ymd 2024 2 15)) (Some (clock 9 30)) (Some (clock 9 45)) ''Power'' []
      = Inl Duplicate_Entry"
  by code_simp

section \<open>The availability aggregator\<close>

subsection \<open>Rows with a parsed date\<close>

lemma dropna_Date_Cons:
  "dropna_Date (row # df) =
     (case Date row of None \<Rightarrow> dropna_Date df | Some d \<Rightarrow> (d, row) # dropna_Date df)"
  by (simp add: dropna_Date_def List.map_filter_def split: option.splits)

lemma dropna_Date_Nil: "dropna_Date [] = []"
  by (simp add: dropna_Date_def List.map_filter_def)

lemma dropna_Date_filter:
  "dropna_Date (filter (\<lambda>row. Date row \<noteq> None) df) = dropna_Date df"
  by (induction df) (auto simp: dropna_Date_Cons dropna_Date_Nil split: option.splits)

lemma map_snd_dropna_Date:
  "map snd (dropna_Date df) = filter (\<lambda>row. Date row \<noteq> None) df"
  by (induction df) (auto simp: dropna_Date_Cons dropna_Date_Nil split: option.splits)

lemma dropna_Date_consistent:
  "r \<in> set (dropna_Date df) \<Longrightarrow> Date (snd r) = Some (fst r) \<and> snd r \<in> set df"
  by (induction df) (auto simp: dropna_Date_Cons dropna_Date_Nil split: option.splits)

lemma dropna_Date_empty_iff:
  "dropna_Date df = [] \<longleftrightarrow> (\<forall>row\<in>set df. Date row = None)"
  by (induction df) (auto simp: dropna_Date_Cons dropna_Date_Nil split: option.splits)




text \<open>
  Claim C9. The aggregator drops exactly the rows whose date did not parse and computes
  every summary from the remaining rows: the result is the result on the log without
  those rows, such a row is in no group, and adding one to a log changes nothing. The
  aggregator has no failing path.
\<close>

theorem malformed_dates_skipped:
  "build_comprehensive_summary T df
     = build_comprehensive_summary T (filter (\<lambda>row. Date row \<noteq> None) df)
   \<and> map snd (dropna_Date df) = filter (\<lambda>row. Date row \<noteq> None) df
   \<and> (\<forall>row\<in>set df. Date row = None \<longrightarrow>
         row \<notin> snd ` set (dropna_Date df)
         \<and> build_comprehensive_summary T (row # df) = build_comprehensive_summary T df
         \<and> build_comprehensive_summary T (df @ [row]) = build_comprehensive_summary T df)"
proof -
  have eq: "build_comprehensive_summary T xs = build_comprehensive_summary T ys"
    if "dropna_Date xs = dropna_Date ys" for xs ys
  proof -
    have "xs = [] \<Longrightarrow> dropna_Date ys = []" "ys = [] \<Longrightarrow> dropna_Date xs = []"
      using that by (auto simp: dropna_Date_Nil)
    then show ?thesis
      using that by (auto simp: build_comprehensive_summary_def Let_def dropna_Date_Nil)
  qed
  have 1: "build_comprehensive_summary T df
     = build_comprehensive_summary T (filter (\<lambda>row. Date row \<noteq> None) df)"
    by (rule eq) (rule dropna_Date_filter [symmetric])
  have 2: "row \<notin> snd ` set (dropna_Date df)" if "Date row = None" for row
    using that dropna_Date_consistent [of _ df] by force
  have 3: "build_comprehensive_summary T (row # df) = build_comprehensive_summary T df"
    if "Date row = None" for row
    by (rule eq) (simp add: dropna_Date_Cons that)
  have 4: "build_comprehensive_summary T (df @ [row]) = build_comprehensive_summary T df"
    if "Date row = None" for row
    by (rule eq) (simp add: dropna_Date_def List.map_filter_def that)
  show ?thesis
    using 1 2 3 4 map_snd_dropna_Date [of df] by blast
qed

theorem malformed_dates_skipped_witness:
  "build_comprehensive_summary (ymd 2024 4 9) sample_log
     = build_comprehensive_summary (ymd 2024 4 9) (filter (\<lambda>row. Date row \<noteq> None) sample_log)
   \<and> length (filter (\<lambda>row. Date row \<noteq> None) sample_log) = 5
   \<and> length (dropna_Date sample_log) = 5
   \<and> build_comprehensive_summary (ymd 2024 4 9) (sample_row None (clock 5 0) (clock 5 20) # sample_log)
     = build_comprehensive_summary (ymd 2024 4 9) sample_log"
proof -
  have a: "sample_row None (clock 5 0) (clock 5 20) \<in> set sample_log"
    by (simp add: sample_log_def)
  have b: "Date (sample_row None (clock 5 0) (clock 5 20)) = None"
    by (simp add: sample_row_def)
  have c: "length (filter (\<lambda>row. Date row \<noteq> None) sample_log) = 5"
    by (simp add: sample_log_def sample_row_def)
  have d: "length (dropna_Date sample_log) = length (filter (\<lambda>row. Date row \<noteq> None) sample_log)"
    using malformed_dates_skipped [of "ymd 2024 4 9" sample_log] by (metis length_map)
  show ?thesis
    using a b c d malformed_dates_skipped [of "ymd 2024 4 9" sample_log] by auto
qed

text \<open>
  What the sidebar makes of these results: it does not aggregate an empty log, it reports
  a log with no record of the current year as having no year-to-date data, and on a log
  none of whose dates parsed its lookup of the missing key fails.
\<close>

lemma system_status_empty: "system_status T [] = Inr No_data"
  by (simp add: system_status_def)

lemma system_status_no_ytd:
  "system_status (ymd 2022 6 1) sample_log = Inr No_YTD_data"
  by code_simp

lemma system_status_unparsed:
  "system_status T [sample_row None (clock 5 0) (clock 5 20)] = Inl KeyError"
  by (simp add: system_status_def getitem_ytd_def build_comprehensive_summary_def
      dropna_Date_def List.map_filter_def sample_row_def)

subsection \<open>The code's summaries are the specification's\<close>

lemma map_fst_dropna_Date: "map fst (dropna_Date df) = parsed_dates df"
  by (induction df)
     (auto simp: dropna_Date_Cons dropna_Date_Nil parsed_dates_def List.map_filter_def split: option.splits)

lemma BROADCAST_minutes: "x * BROADCAST_HOURS_PER_DAY * 60 = x * 1050"
  by (simp add: BROADCAST_HOURS_PER_DAY_def)

lemma is_leap_year_gregorian: "is_leap_year y = gregorian_leap y"
  by (simp add: is_leap_year_def gregorian_leap_def dvd_eq_mod_eq_0)

lemma column_max_Max: "xs \<noteq> [] \<Longrightarrow> column_max xs = Max (set xs)"
  by (cases xs) (simp_all add: Max.set_eq_fold [symmetric])

lemma column_min_Min: "xs \<noteq> [] \<Longrightarrow> column_min xs = Min (set xs)"
  by (cases xs) (simp_all add: Min.set_eq_fold [symmetric])

lemma map_col_Downtime: "map col_Downtime rows = map Downtime_minutes (map snd rows)"
  by (simp add: col_Downtime_def)

lemma snd_filter_dropna_Date:
  "map snd (filter (\<lambda>r. P (fst r)) (dropna_Date df))
     = filter (\<lambda>row. case Date row of None \<Rightarrow> False | Some d \<Rightarrow> P d) df"
  by (induction df) (auto simp: dropna_Date_Cons dropna_Date_Nil split: option.splits)

lemma ytd_outages_selection:
  "map snd (ytd_outages_of T (dropna_Date df)) = ytd_selection T df"
  unfolding ytd_outages_of_def ytd_selection_def col_Year_def
  by (rule snd_filter_dropna_Date [of "\<lambda>d. year d = year T \<and> date_le d T"])

lemma ytd_block_spec: "ytd_block T (dropna_Date df) = spec_ytd T df"
proof -
  have sel: "map snd (ytd_outages_of T (dropna_Date df)) = ytd_selection T df"
    by (rule ytd_outages_selection)
  have len: "length (ytd_outages_of T (dropna_Date df)) = length (ytd_selection T df)"
    using sel by (metis length_map)
  have nil: "ytd_outages_of T (dropna_Date df) = [] \<longleftrightarrow> ytd_selection T df = []"
    using len by (metis length_0_conv)
  have tot: "column_sum (map col_Downtime (ytd_outages_of T (dropna_Date df)))
               = total_downtime (ytd_selection T df)"
    by (simp add: column_sum_def total_downtime_def map_col_Downtime sel del: map_map)
  have mean: "column_mean (map col_Downtime (ytd_outages_of T (dropna_Date df)))
               = real_of_int (total_downtime (ytd_selection T df)) / real (length (ytd_selection T df))"
    using tot len by (simp add: column_mean_def column_sum_def)
  show ?thesis
    unfolding ytd_block_def spec_ytd_def Let_def
    by (simp add: nil tot mean len BROADCAST_minutes availability_def spec_days_elapsed_def)
qed

lemma year_group_rows:
  "map snd (get_group col_Year (dropna_Date df) y) = rows_in_year df y"
  unfolding get_group_def rows_in_year_def col_Year_def
  by (rule snd_filter_dropna_Date [of "\<lambda>d. year d = y"])

lemma rows_in_year_nonempty: "y \<in> year_keys df \<Longrightarrow> rows_in_year df y \<noteq> []"
proof -
  assume "y \<in> year_keys df"
  then obtain d where d: "d \<in> set (parsed_dates df)" "year d = y"
    by (auto simp: year_keys_def)
  then obtain row where "row \<in> set df" "Date row = Some d"
    by (auto simp: parsed_dates_def List.map_filter_def)
  with d have "row \<in> set (rows_in_year df y)"
    by (simp add: rows_in_year_def)
  then show ?thesis by auto
qed

lemma yearly_group_row_spec:
  assumes "y \<in> year_keys df"
  shows "yearly_group_row (dropna_Date df) y = spec_yearly_row df y"
proof -
  let ?g = "get_group col_Year (dropna_Date df) y"
  have g: "map snd ?g = rows_in_year df y" by (rule year_group_rows)
  have col: "map col_Downtime ?g = map Downtime_minutes (rows_in_year df y)"
    by (simp add: map_col_Downtime g del: map_map)
  have len: "length ?g = length (rows_in_year df y)"
    using g by (metis length_map)
  have ne: "map Downtime_minutes (rows_in_year df y) \<noteq> []"
    using rows_in_year_nonempty [OF assms] by simp
  show ?thesis
    unfolding yearly_group_row_def spec_yearly_row_def Let_def col
    by (simp add: len column_sum_def column_mean_def total_downtime_def
        column_max_Max [OF ne] column_min_Min [OF ne] is_leap_year_gregorian
        BROADCAST_minutes availability_def)
qed

lemma groupby_keys_sorted_list: "groupby_keys key rows = sorted_list_of_set (set (map key rows))"
  unfolding groupby_keys_def by (rule sorted_list_of_set_sort_remdups [symmetric])

lemma yearly_summary_spec:
  "yearly_summary (dropna_Date df) = map (spec_yearly_row df) (sorted_list_of_set (year_keys df))"
proof -
  have keys: "set (map col_Year (dropna_Date df)) = year_keys df"
  proof -
    have "map col_Year (dropna_Date df) = map year (map fst (dropna_Date df))"
      by (simp add: col_Year_def)
    then show ?thesis by (simp only: map_fst_dropna_Date year_keys_def)
  qed
  have "yearly_summary (dropna_Date df)
          = map (yearly_group_row (dropna_Date df)) (sorted_list_of_set (year_keys df))"
    by (simp only: yearly_summary_def groupby_keys_sorted_list keys)
  also have "\<dots> = map (spec_yearly_row df) (sorted_list_of_set (year_keys df))"
    by (rule map_cong) (simp_all add: yearly_group_row_spec year_keys_def)
  finally show ?thesis .
qed

lemma month_group_rows:
  "map snd (get_group (\<lambda>r. (col_Year r, col_Month r, col_Month_Num r)) (dropna_Date df)
              (y, month_name m, m))
     = rows_in_month df y m"
proof -
  have "get_group (\<lambda>r. (col_Year r, col_Month r, col_Month_Num r)) (dropna_Date df) (y, month_name m, m)
          = filter (\<lambda>r. year (fst r) = y \<and> month (fst r) = m) (dropna_Date df)"
    unfolding get_group_def col_Year_def col_Month_def col_Month_Num_def
    by (rule filter_cong) auto
  then show ?thesis
    unfolding rows_in_month_def
    using snd_filter_dropna_Date [of "\<lambda>d. year d = y \<and> month d = m" df] by simp
qed

lemma monthly_group_row_spec:
  "monthly_group_row (dropna_Date df) (y, month_name m, m) = (m, closed_monthly_row df (y, m))"
proof -
  let ?g = "get_group (\<lambda>r. (col_Year r, col_Month r, col_Month_Num r)) (dropna_Date df)
              (y, month_name m, m)"
  have g: "map snd ?g = rows_in_month df y m" by (rule month_group_rows)
  have col: "map col_Downtime ?g = map Downtime_minutes (rows_in_month df y m)"
    by (simp add: map_col_Downtime g del: map_map)
  have len: "length ?g = length (rows_in_month df y m)"
    using g by (metis length_map)
  show ?thesis
    unfolding monthly_group_row_def closed_monthly_row_def Let_def prod.case col
    by (simp add: len column_sum_def column_mean_def total_downtime_def
        BROADCAST_minutes availability_def)
qed

lemma Year_closed_monthly_row: "Year (closed_monthly_row df k) = fst k"
  by (simp add: closed_monthly_row_def Let_def)

lemma month_key3_set:
  "set (map (\<lambda>r. (col_Year r, col_Month r, col_Month_Num r)) (dropna_Date df))
     = (\<lambda>k. (fst k, month_name (snd k), snd k)) ` month_keys df"
proof -
  have "map (\<lambda>r. (col_Year r, col_Month r, col_Month_Num r)) (dropna_Date df)
          = map (\<lambda>d. (year d, month_name (month d), month d)) (map fst (dropna_Date df))"
    by (simp add: col_Year_def col_Month_def col_Month_Num_def)
  then show ?thesis
    by (simp only: map_fst_dropna_Date month_keys_def) (simp add: image_image)
qed

lemma monthly_summary_spec:
  "monthly_summary (dropna_Date df)
     = map (closed_monthly_row df) (sorted_list_of_set (month_keys df))"
proof -
  let ?K = "\<lambda>r. (col_Year r, col_Month r, col_Month_Num r)"
  let ?e = "\<lambda>k::int \<times> nat. (fst k, month_name (snd k), snd k)"
  let ?p = "\<lambda>k3::int \<times> string \<times> nat. (fst k3, snd (snd k3))"
  let ?h = "\<lambda>k::int \<times> nat. (snd k, closed_monthly_row df k)"
  let ?f = "\<lambda>p::nat \<times> monthly_row. (Year (snd p), fst p)"
  let ?ks3 = "groupby_keys ?K (dropna_Date df)"
  let ?ps = "sorted_list_of_set (month_keys df)"
  have fin: "finite (month_keys df)" by (simp add: month_keys_def)
  have set3: "set ?ks3 = ?e ` month_keys df"
    by (simp only: groupby_keys_def set_sort set_remdups month_key3_set)
  have dist3: "distinct ?ks3"
    by (simp add: groupby_keys_def)
  have grouped: "map (monthly_group_row (dropna_Date df)) ?ks3 = map ?h (map ?p ?ks3)"
  proof -
    have "monthly_group_row (dropna_Date df) k3 = ?h (?p k3)" if "k3 \<in> set ?ks3" for k3
    proof -
      from that set3 obtain k where "k \<in> month_keys df" "k3 = ?e k" by auto
      then show ?thesis
        using monthly_group_row_spec [of df "fst k" "snd k"] by simp
    qed
    then show ?thesis by (simp only: map_map) (rule map_cong, simp_all)
  qed
  have inj_p: "inj_on ?p (set ?ks3)"
    unfolding set3 by (rule inj_onI) auto
  have dist_p: "distinct (map ?p ?ks3)"
    using dist3 inj_p by (simp add: distinct_map)
  have set_p: "set (map ?p ?ks3) = month_keys df"
    by (simp only: set_map set3 image_image) simp
  have mset_p: "mset (map ?p ?ks3) = mset ?ps"
    using set_eq_iff_mset_eq_distinct [OF dist_p, of ?ps] set_p fin by simp
  have f_h: "?f (?h k) = k" for k
    by (simp add: Year_closed_monthly_row)
  have "map ?f (map ?h ?ps) = ?ps"
    by (simp add: Year_closed_monthly_row o_def)
  then have sorted_ys: "sorted (map ?f (map ?h ?ps))"
    by (simp only: sorted_sorted_list_of_set)
  have inj_f: "inj_on ?f (set (map ?h (map ?p ?ks3)))"
  proof (rule inj_onI)
    fix a b
    assume a: "a \<in> set (map ?h (map ?p ?ks3))" and b: "b \<in> set (map ?h (map ?p ?ks3))"
      and eq: "?f a = ?f b"
    from a obtain ka where ka: "a = ?h ka" by auto
    from b obtain kb where kb: "b = ?h kb" by auto
    from eq have "ka = kb" unfolding ka kb f_h .
    then show "a = b" by (simp add: ka kb)
  qed
  have mset_h: "mset (map ?h (map ?p ?ks3)) = mset (map ?h ?ps)"
    using mset_p by (metis mset_map)
  have sorted_eq: "sort_key ?f (map ?h (map ?p ?ks3)) = map ?h ?ps"
    by (rule sort_key_inj_key_eq [OF mset_h inj_f sorted_ys])
  have "monthly_summary (dropna_Date df) = map snd (sort_key ?f (map ?h (map ?p ?ks3)))"
    unfolding monthly_summary_def Let_def by (simp only: grouped)
  also have "\<dots> = map snd (map ?h ?ps)"
    by (simp only: sorted_eq)
  also have "\<dots> = map (closed_monthly_row df) ?ps"
    by (simp add: o_def)
  finally show ?thesis .
qed

lemma build_comprehensive_summary_spec:
  "build_comprehensive_summary T df =
     (if \<forall>row\<in>set df. Date row = None
      then \<lparr>monthly = [], yearly = [], ytd = None\<rparr>
      else \<lparr>monthly = map (closed_monthly_row df) (sorted_list_of_set (month_keys df)),
            yearly = map (spec_yearly_row df) (sorted_list_of_set (year_keys df)),
            ytd = Some (spec_ytd T df)\<rparr>)"
proof (cases "\<forall>row\<in>set df. Date row = None")
  case True
  then have "dropna_Date df = []" by (simp add: dropna_Date_empty_iff)
  with True show ?thesis by (simp add: build_comprehensive_summary_def)
next
  case False
  then have "dropna_Date df \<noteq> []" "df \<noteq> []" by (auto simp: dropna_Date_empty_iff)
  with False show ?thesis
    by (simp add: build_comprehensive_summary_def monthly_summary_spec yearly_summary_spec
        ytd_block_spec)
qed

lemma spec_days_elapsed_day_of_year:
  "spec_days_elapsed T = int (days_before_month (year T) (month T)) + int (day T)"
  by (simp add: spec_days_elapsed_def timedelta_days_def toordinal_def days_before_month_def)

lemma spec_days_elapsed_pos: "valid_date T \<Longrightarrow> 1 \<le> spec_days_elapsed T"
  by (simp add: spec_days_elapsed_day_of_year valid_date_def)


lemma set_rows_in_year:
  "set (rows_in_year df y) = {row \<in> set df. \<exists>d. Date row = Some d \<and> year d = y}"
  by (auto simp: rows_in_year_def split: option.splits)

lemma parsed_dates_Cons:
  "parsed_dates (row # df) = (case Date row of None \<Rightarrow> parsed_dates df | Some d \<Rightarrow> d # parsed_dates df)"
  by (simp add: parsed_dates_def List.map_filter_def split: option.splits)

lemma set_parsed_dates: "set (parsed_dates df) = {d. \<exists>row\<in>set df. Date row = Some d}"
proof (induction df)
  case Nil
  show ?case by (simp add: parsed_dates_def List.map_filter_def)
next
  case (Cons row df)
  then show ?case by (auto simp: parsed_dates_Cons split: option.splits)
qed

lemma month_keys_iff:
  "(y, m) \<in> month_keys df \<longleftrightarrow> (\<exists>row\<in>set df. \<exists>d. Date row = Some d \<and> year d = y \<and> month d = m)"
  by (auto simp: month_keys_def set_parsed_dates)

lemma year_keys_iff:
  "y \<in> year_keys df \<longleftrightarrow> (\<exists>row\<in>set df. \<exists>d. Date row = Some d \<and> year d = y)"
  by (auto simp: year_keys_def set_parsed_dates)











text \<open>
  Claim C2. The yearly frame has one row for each year in which a record with a parsed date
  lies. The row of a year holds the sum of the durations of the year's records, their
  number, the quotient of the two, the largest and the smallest duration (and both divided
  by 60), 366 days when the year is divisible by 4 and not by 100 unless by 400 and 365
  otherwise, the budget of 1050 minutes for each of these days, and the availability
  \<open>100 * (budget - downtime) / budget\<close>.
\<close>

theorem yearly_summary_correct:
  "yearly (build_comprehensive_summary T df)
     = map (spec_yearly_row df) (sorted_list_of_set (year_keys df))
   \<and> set (sorted_list_of_set (year_keys df)) = year_keys df
   \<and> sorted_wrt (<) (sorted_list_of_set (year_keys df))
   \<and> (\<forall>y\<in>year_keys df.
         set (rows_in_year df y) = {row \<in> set df. \<exists>d. Date row = Some d \<and> year d = y}
         \<and> rows_in_year df y \<noteq> [])
   \<and> (\<forall>y. gregorian_leap y \<longleftrightarrow> y mod 4 = 0 \<and> (y mod 100 \<noteq> 0 \<or> y mod 400 = 0))"
proof -
  have fin: "finite (year_keys df)" by (simp add: year_keys_def)
  have 1: "yearly (build_comprehensive_summary T df)
     = map (spec_yearly_row df) (sorted_list_of_set (year_keys df))"
  proof (cases "\<forall>row\<in>set df. Date row = None")
    case True
    then have "year_keys df = {}"
      using year_keys_iff [of _ df] by auto
    with True show ?thesis by (simp add: build_comprehensive_summary_spec)
  next
    case False
    then have "build_comprehensive_summary T df =
       \<lparr>monthly = map (closed_monthly_row df) (sorted_list_of_set (month_keys df)),
        yearly = map (spec_yearly_row df) (sorted_list_of_set (year_keys df)),
        ytd = Some (spec_ytd T df)\<rparr>"
      by (simp only: build_comprehensive_summary_spec if_False)
    then show ?thesis by simp
  qed
  have 5: "gregorian_leap y \<longleftrightarrow> y mod 4 = 0 \<and> (y mod 100 \<noteq> 0 \<or> y mod 400 = 0)" for y
    by (simp add: gregorian_leap_def dvd_eq_mod_eq_0)
  show ?thesis
    using 1 fin rows_in_year_nonempty [of _ df] set_rows_in_year [of df] 5
      strict_sorted_list_of_set [of "year_keys df"] by simp
qed

theorem yearly_summary_correct_witness:
  "map (\<lambda>r. (Year r, Total_Downtime_Minutes r, Failure_Count r, Avg_Downtime_Per_Failure r,
              Max_Downtime r, Min_Downtime r, Max_Downtime_hours r, Min_Downtime_hours r,
              Days_in_Year r, Total_Broadcast_Minutes r, Availability_pct r))
     (yearly (build_comprehensive_summary (ymd 2024 4 9) sample_log))
   = [(2023, 45, 1, 45, 45, 45, 3 / 4, 3 / 4, 365, 383250, 51094 / 511),
      (2024, 190, 4, 95 / 2, 90, 10, 3 / 2, 1 / 6, 366, 384300, 384110 / 3843)]
   \<and> gregorian_leap 2000 \<and> \<not> gregorian_leap 1900"
proof -
  have "map (\<lambda>r. (Year r, Total_Downtime_Minutes r, Failure_Count r, Avg_Downtime_Per_Failure r,
              Max_Downtime r, Min_Downtime r, Max_Downtime_hours r, Min_Downtime_hours r,
              Days_in_Year r, Total_Broadcast_Minutes r, Availability_pct r))
     (map (spec_yearly_row sample_log) (sorted_list_of_set (year_keys sample_log)))
   = [(2023, 45, 1, 45, 45, 45, 3 / 4, 3 / 4, 365, 383250, 51094 / 511),
      (2024, 190, 4, 95 / 2, 90, 10, 3 / 2, 1 / 6, 366, 384300, 384110 / 3843)]"
    by code_simp
  moreover have "gregorian_leap 2000 \<and> \<not> gregorian_leap 1900"
    using yearly_summary_correct [of "ymd 2024 4 9" sample_log] by simp
  ultimately show ?thesis
    using yearly_summary_correct [of "ymd 2024 4 9" sample_log] by simp
qed

subsection \<open>Year to date and projection\<close>

lemma ytd_selection_filter:
  "ytd_selection T df
     = filter (\<lambda>row. \<exists>d. Date row = Some d \<and> year d = year T \<and> date_le d T) df"
  unfolding ytd_selection_def by (rule filter_cong) (auto split: option.splits)

lemma ytd_of_build:
  "ytd (build_comprehensive_summary T df)
     = (if \<forall>row\<in>set df. Date row = None then None else Some (spec_ytd T df))"
  by (simp add: build_comprehensive_summary_spec)

lemma ytd_selection_no_dates:
  "\<forall>row\<in>set df. Date row = None \<Longrightarrow> ytd_selection T df = []"
  by (auto simp: ytd_selection_def filter_empty_conv)

text \<open>
  Claim C3. With the current date \<open>T\<close>, the year-to-date summary is computed from exactly
  the records dated in the year of \<open>T\<close> and not after \<open>T\<close>. When there is none, no
  summary object is returned; otherwise the summary holds the days elapsed
  (\<open>T\<close> minus 1 January, plus 1), the budget of 1050 minutes for each of them, the sum of
  the durations, the availability \<open>100 * (budget - downtime) / budget\<close>, the number of
  the records and their mean duration. The days elapsed are at least 1.
\<close>

theorem ytd_summary_correct:
  assumes "valid_date T"
  shows "ytd_selection T df
           = filter (\<lambda>row. \<exists>d. Date row = Some d \<and> year d = year T \<and> date_le d T) df
     \<and> (ytd_selection T df = [] \<longrightarrow>
           ytd (build_comprehensive_summary T df) = None
           \<or> ytd (build_comprehensive_summary T df) = Some None)
     \<and> (ytd_selection T df \<noteq> [] \<longrightarrow>
           ytd (build_comprehensive_summary T df) =
             Some (Some
               \<lparr>current_year = year T,
                days_elapsed = timedelta_days T \<lparr>year = year T, month = 1, day = 1\<rparr> + 1,
                total_broadcast_minutes =
                  real_of_int (timedelta_days T \<lparr>year = year T, month = 1, day = 1\<rparr> + 1) * 1050,
                total_downtime_minutes = total_downtime (ytd_selection T df),
                ytd_availability_pct =
                  100 * (real_of_int (timedelta_days T \<lparr>year = year T, month = 1, day = 1\<rparr> + 1) * 1050
                          - real_of_int (total_downtime (ytd_selection T df)))
                      / (real_of_int (timedelta_days T \<lparr>year = year T, month = 1, day = 1\<rparr> + 1) * 1050),
                failure_count = length (ytd_selection T df),
                avg_downtime_per_failure =
                  real_of_int (total_downtime (ytd_selection T df)) / real (length (ytd_selection T df))\<rparr>))
     \<and> 1 \<le> timedelta_days T \<lparr>year = year T, month = 1, day = 1\<rparr> + 1"
proof -
  have pos: "1 \<le> timedelta_days T \<lparr>year = year T, month = 1, day = 1\<rparr> + 1"
    using spec_days_elapsed_pos [OF assms] by (simp add: spec_days_elapsed_def)
  have none: "ytd (build_comprehensive_summary T df) = None
           \<or> ytd (build_comprehensive_summary T df) = Some None"
    if "ytd_selection T df = []"
    using that by (simp add: ytd_of_build spec_ytd_def)
  have some: "ytd (build_comprehensive_summary T df) = Some (spec_ytd T df)"
    if "ytd_selection T df \<noteq> []"
  proof -
    from that have "\<not> (\<forall>row\<in>set df. Date row = None)"
      using ytd_selection_no_dates [of df T] by blast
    then show ?thesis by (simp only: ytd_of_build if_False)
  qed
  have full: "spec_ytd T df = Some
               \<lparr>current_year = year T,
                days_elapsed = timedelta_days T \<lparr>year = year T, month = 1, day = 1\<rparr> + 1,
                total_broadcast_minutes =
                  real_of_int (timedelta_days T \<lparr>year = year T, month = 1, day = 1\<rparr> + 1) * 1050,
                total_downtime_minutes = total_downtime (ytd_selection T df),
                ytd_availability_pct =
                  100 * (real_of_int (timedelta_days T \<lparr>year = year T, month = 1, day = 1\<rparr> + 1) * 1050
                          - real_of_int (total_downtime (ytd_selection T df)))
                      / (real_of_int (timedelta_days T \<lparr>year = year T, month = 1, day = 1\<rparr> + 1) * 1050),
                failure_count = length (ytd_selection T df),
                avg_downtime_per_failure =
                  real_of_int (total_downtime (ytd_selection T df)) / real (length (ytd_selection T df))\<rparr>"
    if "ytd_selection T df \<noteq> []"
    using that by (simp add: spec_ytd_def Let_def spec_days_elapsed_def availability_def)
  show ?thesis
    using pos none some full ytd_selection_filter [of T df] by presburger
qed

theorem ytd_summary_correct_witness:
  "valid_date (ymd 2024 4 9)
   \<and> length (ytd_selection (ymd 2024 4 9) sample_log) = 3
   \<and> ytd (build_comprehensive_summary (ymd 2024 4 9) sample_log) =
       Some (Some \<lparr>current_year = 2024, days_elapsed = 100, total_broadcast_minutes = 105000,
                    total_downtime_minutes = 180, ytd_availability_pct = 3494 / 35,
                    failure_count = 3, avg_downtime_per_failure = 60\<rparr>)
   \<and> valid_date (ymd 2022 6 1)
   \<and> ytd_selection (ymd 2022 6 1) sample_log = []
   \<and> ytd (build_comprehensive_summary (ymd 2022 6 1) sample_log) = Some None"
proof -
  have v: "valid_date (ymd 2024 4 9)" "valid_date (ymd 2022 6 1)"
    by (simp_all add: valid_date_def ymd_def days_in_month_def)
  let ?T = "ymd 2024 4 9"
  let ?de = "timedelta_days ?T \<lparr>year = year ?T, month = 1, day = 1\<rparr> + 1"
  let ?sel = "ytd_selection ?T sample_log"
  let ?s = "\<lparr>current_year = year ?T,
             days_elapsed = ?de,
             total_broadcast_minutes = real_of_int ?de * 1050,
             total_downtime_minutes = total_downtime ?sel,
             ytd_availability_pct =
               100 * (real_of_int ?de * 1050 - real_of_int (total_downtime ?sel))
                 / (real_of_int ?de * 1050),
             failure_count = length ?sel,
             avg_downtime_per_failure = real_of_int (total_downtime ?sel) / real (length ?sel)\<rparr>"
  have len: "length ?sel = 3"
    by code_simp
  then have ne: "?sel \<noteq> []" by auto
  have big: "ytd (build_comprehensive_summary ?T sample_log) = Some (Some ?s)"
    using ytd_summary_correct [OF v(1), of sample_log] ne by blast
  have val: "?s = \<lparr>current_year = 2024, days_elapsed = 100, total_broadcast_minutes = 105000,
                    total_downtime_minutes = 180, ytd_availability_pct = 3494 / 35,
                    failure_count = 3, avg_downtime_per_failure = 60\<rparr>"
    by code_simp
  have a: "ytd (build_comprehensive_summary ?T sample_log) =
       Some (Some \<lparr>current_year = 2024, days_elapsed = 100, total_broadcast_minutes = 105000,
                    total_downtime_minutes = 180, ytd_availability_pct = 3494 / 35,
                    failure_count = 3, avg_downtime_per_failure = 60\<rparr>)"
    by (simp only: big val)
  have e: "ytd_selection (ymd 2022 6 1) sample_log = []"
    by code_simp
  have k: "ytd (build_comprehensive_summary (ymd 2022 6 1) sample_log) \<noteq> None"
    by code_simp
  have b: "ytd (build_comprehensive_summary (ymd 2022 6 1) sample_log) = Some None"
    using ytd_summary_correct [OF v(2), of sample_log] e k by blast
  show ?thesis using v len a e b by blast
qed

lemma days_elapsed_of_build:
  assumes "valid_date T" and "ytd (build_comprehensive_summary T df) = Some (Some s)"
  shows "0 < days_elapsed s"
proof -
  from assms(2) have "spec_ytd T df = Some s"
    by (auto simp: ytd_of_build split: if_splits)
  then have "days_elapsed s = spec_days_elapsed T"
    by (auto simp: spec_ytd_def Let_def split: if_splits)
  with spec_days_elapsed_pos [OF assms(1)] show ?thesis by simp
qed

lemma full_year_projection_spec:
  "full_year_projection s = (if days_elapsed s < 365 then Some (spec_projection s) else None)"
  by (simp add: full_year_projection_def spec_projection_def Let_def BROADCAST_HOURS_PER_DAY_def)

text \<open>
  Claim C4. For a year-to-date summary that the aggregator returned, with fewer than 365
  days elapsed, the page projects the remaining downtime as the daily rate so far times
  \<open>365 - days_elapsed\<close>, the total as the downtime so far plus that, and the availability
  as \<open>100 * (365 * 1050 - total) / (365 * 1050)\<close>; the year has 365 days in this formula
  whatever the current year. From 365 days elapsed on, nothing is projected.
\<close>

theorem full_year_projection_correct:
  assumes "valid_date T" and "ytd (build_comprehensive_summary T df) = Some (Some s)"
  shows "0 < days_elapsed s
     \<and> (days_elapsed s < 365 \<longrightarrow>
          full_year_projection s = Some
            \<lparr>projected_remaining_downtime =
               (real_of_int (total_downtime_minutes s) / real_of_int (days_elapsed s))
                 * real_of_int (365 - days_elapsed s),
             projected_total_downtime =
               real_of_int (total_downtime_minutes s)
                 + (real_of_int (total_downtime_minutes s) / real_of_int (days_elapsed s))
                     * real_of_int (365 - days_elapsed s),
             projected_availability =
               100 * (365 * 1050
                       - (real_of_int (total_downtime_minutes s)
                           + (real_of_int (total_downtime_minutes s) / real_of_int (days_elapsed s))
                               * real_of_int (365 - days_elapsed s)))
                   / (365 * 1050)\<rparr>)
     \<and> (365 \<le> days_elapsed s \<longrightarrow> full_year_projection s = None)"
  using days_elapsed_of_build [OF assms]
  by (simp add: full_year_projection_spec spec_projection_def Let_def)

theorem full_year_projection_correct_witness:
  "valid_date (ymd 2024 4 9)
   \<and> ytd (build_comprehensive_summary (ymd 2024 4 9) sample_log) =
       Some (Some \<lparr>current_year = 2024, days_elapsed = 100, total_broadcast_minutes = 105000,
                    total_downtime_minutes = 180, ytd_availability_pct = 3494 / 35,
                    failure_count = 3, avg_downtime_per_failure = 60\<rparr>)
   \<and> full_year_projection
         \<lparr>current_year = 2024, days_elapsed = 100, total_broadcast_minutes = 105000,
          total_downtime_minutes = 180, ytd_availability_pct = 3494 / 35,
          failure_count = 3, avg_downtime_per_failure = 60\<rparr>
       = Some \<lparr>projected_remaining_downtime = 477, projected_total_downtime = 657,
               projected_availability = 3494 / 35\<rparr>
   \<and> is_leap_year 2024
   \<and> valid_date (ymd 2024 12 30)
   \<and> ytd (build_comprehensive_summary (ymd 2024 12 30) sample_log) =
       Some (Some \<lparr>current_year = 2024, days_elapsed = 365, total_broadcast_minutes = 383250,
                    total_downtime_minutes = 190, ytd_availability_pct = 153224 / 1533,
                    failure_count = 4, avg_downtime_per_failure = 95 / 2\<rparr>)
   \<and> full_year_projection
         \<lparr>current_year = 2024, days_elapsed = 365, total_broadcast_minutes = 383250,
          total_downtime_minutes = 190, ytd_availability_pct = 153224 / 1533,
          failure_count = 4, avg_downtime_per_failure = 95 / 2\<rparr>
       = None"
proof -
  have v: "valid_date (ymd 2024 4 9)" "valid_date (ymd 2024 12 30)" "is_leap_year 2024"
    by (simp_all add: valid_date_def ymd_def days_in_month_def is_leap_year_def)
  have a: "ytd (build_comprehensive_summary (ymd 2024 4 9) sample_log) =
       Some (Some \<lparr>current_year = 2024, days_elapsed = 100, total_broadcast_minutes = 105000,
                    total_downtime_minutes = 180, ytd_availability_pct = 3494 / 35,
                    failure_count = 3, avg_downtime_per_failure = 60\<rparr>)"
    by code_simp
  have b: "ytd (build_comprehensive_summary (ymd 2024 12 30) sample_log) =
       Some (Some \<lparr>current_year = 2024, days_elapsed = 365, total_broadcast_minutes = 383250,
                    total_downtime_minutes = 190, ytd_availability_pct = 153224 / 1533,
                    failure_count = 4, avg_downtime_per_failure = 95 / 2\<rparr>)"
    by code_simp
  show ?thesis
    using v a b full_year_projection_correct [OF v(1) a] full_year_projection_correct [OF v(2) b]
    by simp
qed

subsection \<open>The order of the log does not matter\<close>

lemma total_downtime_mset: "mset g = mset g' \<Longrightarrow> total_downtime g = total_downtime g'"
  unfolding total_downtime_def by (metis mset_map sum_mset_sum_list)

lemma durations_set_mset:
  "mset g = mset g' \<Longrightarrow> set (map Downtime_minutes g) = set (map Downtime_minutes g')"
  by (metis mset_map set_mset_mset)

lemma parsed_keys_mset:
  assumes "mset df = mset df'"
  shows "month_keys df = month_keys df'" and "year_keys df = year_keys df'"
    and "(\<forall>row\<in>set df. Date row = None) \<longleftrightarrow> (\<forall>row\<in>set df'. Date row = None)"
proof -
  have "set df = set df'" using assms by (rule mset_eq_setD)
  then show "month_keys df = month_keys df'" "year_keys df = year_keys df'"
    "(\<forall>row\<in>set df. Date row = None) \<longleftrightarrow> (\<forall>row\<in>set df'. Date row = None)"
    by (simp_all add: month_keys_def year_keys_def set_parsed_dates)
qed

lemma closed_monthly_row_mset:
  assumes "mset df = mset df'"
  shows "closed_monthly_row df = closed_monthly_row df'"
proof (rule ext)
  fix k
  have g: "mset (rows_in_month df (fst k) (snd k)) = mset (rows_in_month df' (fst k) (snd k))"
    using assms by (simp add: rows_in_month_def)
  show "closed_monthly_row df k = closed_monthly_row df' k"
    unfolding closed_monthly_row_def Let_def
    by (simp add: total_downtime_mset [OF g] mset_eq_length [OF g])
qed

lemma spec_yearly_row_mset:
  assumes "mset df = mset df'"
  shows "spec_yearly_row df = spec_yearly_row df'"
proof (rule ext)
  fix y
  have g: "mset (rows_in_year df y) = mset (rows_in_year df' y)"
    using assms by (simp add: rows_in_year_def)
  show "spec_yearly_row df y = spec_yearly_row df' y"
    unfolding spec_yearly_row_def Let_def
    by (simp only: total_downtime_mset [OF g] mset_eq_length [OF g] durations_set_mset [OF g])
qed

lemma spec_ytd_mset:
  assumes "mset df = mset df'"
  shows "spec_ytd T df = spec_ytd T df'"
proof -
  have g: "mset (ytd_selection T df) = mset (ytd_selection T df')"
    using assms by (simp add: ytd_selection_def)
  have nil: "ytd_selection T df = [] \<longleftrightarrow> ytd_selection T df' = []"
    using mset_eq_length [OF g] by (metis length_0_conv)
  show ?thesis
    unfolding spec_ytd_def Let_def
    by (simp only: total_downtime_mset [OF g] mset_eq_length [OF g] nil)
qed

text \<open>
  Claim C10. Two logs that are permutations of each other have, for the same current date,
  the same monthly, yearly and year-to-date summaries; the monthly rows come in ascending
  order of (year, month number) whatever the order of the log.
\<close>

theorem summary_permutation_invariant:
  assumes "mset df = mset df'"
  shows "build_comprehensive_summary T df = build_comprehensive_summary T df'
     \<and> map (\<lambda>r. (Year r, Month r)) (monthly (build_comprehensive_summary T df'))
         = map (\<lambda>k. (fst k, month_name (snd k))) (sorted_list_of_set (month_keys df))"
proof -
  have eq: "build_comprehensive_summary T df = build_comprehensive_summary T df'"
    unfolding build_comprehensive_summary_spec
    by (simp only: parsed_keys_mset [OF assms] closed_monthly_row_mset [OF assms]
        spec_yearly_row_mset [OF assms] spec_ytd_mset [OF assms])
  have "month_keys df = {}" if "\<forall>row\<in>set df. Date row = None"
    using that month_keys_iff [of _ _ df] by (auto simp del: split_paired_All)
  then have "monthly (build_comprehensive_summary T df)
     = map (closed_monthly_row df) (sorted_list_of_set (month_keys df))"
    by (auto simp: build_comprehensive_summary_spec)
  then have "map (\<lambda>r. (Year r, Month r)) (monthly (build_comprehensive_summary T df))
         = map (\<lambda>k. (fst k, month_name (snd k))) (sorted_list_of_set (month_keys df))"
    by (simp add: closed_monthly_row_def Let_def o_def)
  with eq show ?thesis by simp
qed

theorem summary_permutation_invariant_witness:
  "mset sample_log = mset (rev sample_log)
   \<and> sample_log \<noteq> rev sample_log
   \<and> build_comprehensive_summary (ymd 2024 4 9) sample_log
       = build_comprehensive_summary (ymd 2024 4 9) (rev sample_log)
   \<and> map (\<lambda>r. (Year r, Month r)) (monthly (build_comprehensive_summary (ymd 2024 4 9) (rev sample_log)))
       = [(2023, ''December''), (2024, ''January''), (2024, ''February''), (2024, ''August'')]"
proof -
  have m: "mset sample_log = mset (rev sample_log)" by simp
  have n: "sample_log \<noteq> rev sample_log"
    by (simp add: sample_log_def sample_row_def)
  have k: "map (\<lambda>k. (fst k, month_name (snd k))) (sorted_list_of_set (month_keys sample_log))
       = [(2023, ''December''), (2024, ''January''), (2024, ''February''), (2024, ''August'')]"
    by code_simp
  show ?thesis
    using m n k summary_permutation_invariant [OF m, of "ymd 2024 4 9"] by simp
qed

end
